theory Spec2Isabelle
  imports Complex_Main
begin

section \<open>Python values and exceptions\<close>

text \<open>
  The exceptions the modelled code can raise. \<open>ValueError\<close> comes from \<open>int()\<close> and
  \<open>float()\<close> on a malformed literal, \<open>IndexError\<close> from indexing a string or a list out of
  range, the others from \<open>os.mkdir\<close> and \<open>open\<close>.
\<close>

datatype error =
    ValueError
  | IndexError
  | FileExistsError
  | FileNotFoundError
  | NotADirectoryError
  | IsADirectoryError

text \<open>
  A Python \<open>float\<close>. Every finite binary64 value is a rational number, so \<open>Finite r\<close> stands
  for the float whose exact value is \<open>r\<close>. Negative zero is not distinguished from zero.
\<close>

datatype pyfloat = Finite rat | PosInf | NegInf | NaN

section \<open>The builtins \<open>str.split\<close>, \<open>int\<close> and \<open>float\<close>\<close>

text \<open>\<open>s.split(sep)\<close> for a one-character separator: it always returns at least one segment.\<close>

fun split_on :: "char \<Rightarrow> string \<Rightarrow> string list" where
  "split_on sep [] = [[]]"
| "split_on sep (c # cs) =
     (if c = sep then [] # split_on sep cs
      else (case split_on sep cs of
              [] \<Rightarrow> [[c]]
            | seg # segs \<Rightarrow> (c # seg) # segs))"

definition is_digit :: "char \<Rightarrow> bool" where
  "is_digit c = (c \<in> set ''0123456789'')"

definition digit_val :: "char \<Rightarrow> nat" where
  "digit_val c = of_char c - 48"

definition digit_char :: "nat \<Rightarrow> char" where
  "digit_char n = ''0123456789'' ! (n mod 10)"

text \<open>\<open>int(c)\<close> for a one-character string \<open>c\<close>: only a decimal digit is accepted.\<close>

definition int_of_char :: "char \<Rightarrow> error + nat" where
  "int_of_char c = (if is_digit c then Inr (digit_val c) else Inl ValueError)"

text \<open>The value of a digit string, most significant digit first.\<close>

definition digits_val :: "string \<Rightarrow> nat" where
  "digits_val ds = foldl (\<lambda>acc c. 10 * acc + digit_val c) 0 ds"

text \<open>
  \<open>float(s)\<close> on a string, following CPython 3: underscores are allowed only between two
  digits and are removed; white space is stripped on both sides; then comes an optional sign
  and either \<open>inf\<close>, \<open>infinity\<close> or \<open>nan\<close> in any case, or a decimal number with at least one
  digit and an optional exponent. Anything else raises \<open>ValueError\<close>, here \<open>None\<close>.
  A string is a list of characters with code points below 256; among them the white space is
  the ASCII white space, the next-line character and the no-break space.
  The result \<open>Finite r\<close> carries the exact decimal value \<open>r\<close> of the literal; the rounding of
  \<open>r\<close> to the nearest binary64 value is not modelled.
\<close>

definition is_space :: "char \<Rightarrow> bool" where
  "is_space c = (c \<in> {CHR '' '', CHR 0x09, CHR 0x0A, CHR 0x0B, CHR 0x0C, CHR 0x0D,
                       CHR 0x85, CHR 0xA0})"

definition strip :: "string \<Rightarrow> string" where
  "strip s = rev (dropWhile is_space (rev (dropWhile is_space s)))"

fun underscores_ok :: "char \<Rightarrow> string \<Rightarrow> bool" where
  "underscores_ok prev [] = (prev \<noteq> CHR ''_'')"
| "underscores_ok prev (c # cs) =
     (if c = CHR ''_'' then is_digit prev \<and> underscores_ok c cs
      else (prev = CHR ''_'' \<longrightarrow> is_digit c) \<and> underscores_ok c cs)"

definition to_lower :: "char \<Rightarrow> char" where
  "to_lower c =
     (if c = CHR ''I'' then CHR ''i'' else if c = CHR ''N'' then CHR ''n''
      else if c = CHR ''F'' then CHR ''f'' else if c = CHR ''T'' then CHR ''t''
      else if c = CHR ''Y'' then CHR ''y'' else if c = CHR ''A'' then CHR ''a'' else c)"

definition scale10 :: "nat \<Rightarrow> int \<Rightarrow> rat" where
  "scale10 m e = (if 0 \<le> e then of_nat m * 10 ^ nat e else of_nat m / 10 ^ nat (- e))"

text \<open>A non-empty run of digits, read as a number.\<close>

definition parse_digits :: "string \<Rightarrow> int option" where
  "parse_digits ds =
     (if ds \<noteq> [] \<and> list_all is_digit ds then Some (int (digits_val ds)) else None)"

text \<open>An optional exponent part: \<open>e\<close> or \<open>E\<close>, an optional sign, at least one digit.\<close>

definition parse_exponent :: "string \<Rightarrow> int option" where
  "parse_exponent s =
     (case s of
        [] \<Rightarrow> Some 0
      | c # r \<Rightarrow>
          if c = CHR ''e'' \<or> c = CHR ''E'' then
            (case r of
               [] \<Rightarrow> None
             | d # r' \<Rightarrow> if d = CHR ''-'' then map_option uminus (parse_digits r')
                         else if d = CHR ''+'' then parse_digits r'
                         else parse_digits r)
          else None)"

text \<open>An unsigned decimal number: digits, an optional point and digits, an optional exponent.\<close>

definition parse_decimal :: "string \<Rightarrow> rat option" where
  "parse_decimal s =
     (let ip = takeWhile is_digit s;
          r1 = dropWhile is_digit s;
          (fp, r2) = (case r1 of
                        [] \<Rightarrow> ([], [])
                      | c # r \<Rightarrow> if c = CHR ''.''
                                  then (takeWhile is_digit r, dropWhile is_digit r)
                                  else ([], r1))
      in if ip @ fp = [] then None
         else (case parse_exponent r2 of
                 None \<Rightarrow> None
               | Some e \<Rightarrow> Some (scale10 (digits_val (ip @ fp)) (e - int (length fp)))))"

definition py_float :: "string \<Rightarrow> pyfloat option" where
  "py_float s =
     (if \<not> underscores_ok (CHR 0x00) s then None
      else
        (let t = strip (filter (\<lambda>c. c \<noteq> CHR ''_'') s);
             (neg, body) = (case t of
                              [] \<Rightarrow> (False, [])
                            | c # r \<Rightarrow> if c = CHR ''-'' then (True, r)
                                        else if c = CHR ''+'' then (False, r)
                                        else (False, t));
             low = map to_lower body
         in if low = ''inf'' \<or> low = ''infinity'' then Some (if neg then NegInf else PosInf)
            else if low = ''nan'' then Some NaN
            else (case parse_decimal body of
                    None \<Rightarrow> None
                  | Some r \<Rightarrow> Some (Finite (if neg then - r else r)))))"

section \<open>The response decoder (\<open>data_parsing.py\<close>)\<close>

text \<open>
  \<open>__remove_header\<close>: the slice \<open>[1:]\<close> drops the first character whatever it is, the next
  character is read with \<open>int\<close> as the header length, and the slice \<open>[header_len+1:]\<close> drops
  that digit and the header. A Python slice never raises: past the end it is empty.
\<close>

definition remove_header :: "string \<Rightarrow> error + string" where
  "remove_header vna_response =
     (let r = drop 1 vna_response
      in case r of
           [] \<Rightarrow> Inl IndexError
         | c # _ \<Rightarrow>
             (case int_of_char c of
                Inl e \<Rightarrow> Inl e
              | Inr header_len \<Rightarrow> Inr (drop (header_len + 1) r)))"

text \<open>The list comprehension of \<open>__create_array\<close>: the first bad segment raises.\<close>

fun floats_of :: "string list \<Rightarrow> error + pyfloat list" where
  "floats_of [] = Inr []"
| "floats_of (seg # segs) =
     (case py_float seg of
        None \<Rightarrow> Inl ValueError
      | Some v \<Rightarrow> (case floats_of segs of
                     Inl e \<Rightarrow> Inl e
                   | Inr vs \<Rightarrow> Inr (v # vs)))"

text \<open>
  \<open>__create_array\<close>: split on every comma and convert the segments of index
  \<open>0 .. len - 2\<close>; the last segment is never looked at.
\<close>

definition create_array :: "string \<Rightarrow> error + pyfloat list" where
  "create_array vna_response =
     (let segs = split_on (CHR '','') vna_response
      in floats_of (take (length segs - 1) segs))"

definition parse_vna_frequency :: "string \<Rightarrow> error + pyfloat list" where
  "parse_vna_frequency vna_freq =
     (case remove_header vna_freq of
        Inl e \<Rightarrow> Inl e
      | Inr r \<Rightarrow> create_array r)"

text \<open>
  One iteration of the loop of \<open>parse_vna_trace\<close>, with its two independent conditionals
  \<open>indx % 2 == 0\<close> and \<open>indx % 2 != 1\<close>.
\<close>

definition trace_step :: "'a list \<Rightarrow> nat \<Rightarrow> 'a list \<times> 'a list \<Rightarrow> 'a list \<times> 'a list" where
  "trace_step vna_trace indx acc =
     (let (vna_trace_re, vna_trace_im) = acc;
          re' = (if indx mod 2 = 0 then vna_trace_re @ [vna_trace ! indx] else vna_trace_re);
          im' = (if indx mod 2 \<noteq> 1 then vna_trace_im @ [vna_trace ! indx] else vna_trace_im)
      in (re', im'))"

text \<open>The loop \<open>for indx in range(len(vna_trace))\<close>, started with two empty lists.\<close>

definition split_trace :: "'a list \<Rightarrow> 'a list \<times> 'a list" where
  "split_trace vna_trace = fold (trace_step vna_trace) [0 ..< length vna_trace] ([], [])"

definition parse_vna_trace :: "string \<Rightarrow> error + (pyfloat list \<times> pyfloat list)" where
  "parse_vna_trace vna_trace =
     (case remove_header vna_trace of
        Inl e \<Rightarrow> Inl e
      | Inr r \<Rightarrow>
          (case create_array r of
             Inl e \<Rightarrow> Inl e
           | Inr xs \<Rightarrow> Inr (split_trace xs)))"

section \<open>Formatting a coordinate: \<open>{:06.2f}\<close>\<close>

text \<open>The decimal digits of a natural number, without leading zeros.\<close>

fun dec_digits :: "nat \<Rightarrow> string" where
  "dec_digits n =
     (if n < 10 then [digit_char n] else dec_digits (n div 10) @ [digit_char (n mod 10)])"

declare dec_digits.simps [simp del]

text \<open>Rounding to the nearest integer, a tie going to the even neighbour.\<close>

definition round_half_even :: "rat \<Rightarrow> int" where
  "round_half_even q =
     (let f = \<lfloor>q\<rfloor>; d = q - of_int f
      in if d < 1 / 2 then f
         else if 1 / 2 < d then f + 1
         else if even f then f else f + 1)"

text \<open>A non-negative value in fixed-point notation with two decimal digits.\<close>

definition fixed2 :: "rat \<Rightarrow> string" where
  "fixed2 r =
     (let n = nat (round_half_even (r * 100))
      in dec_digits (n div 100) @ [CHR ''.'', digit_char (n div 10 mod 10), digit_char (n mod 10)])"

text \<open>
  The format specification \<open>06.2f\<close>: two decimal digits, and zeros between the sign and the
  digits up to a width of six characters; a longer rendering is not cut.
\<close>

definition format_06_2f :: "pyfloat \<Rightarrow> string" where
  "format_06_2f v =
     (let (sign, body) = (case v of
                            Finite r \<Rightarrow> (if r < 0 then ''-'' else [], fixed2 \<bar>r\<bar>)
                          | PosInf \<Rightarrow> ([], ''inf'')
                          | NegInf \<Rightarrow> (''-'', ''inf'')
                          | NaN \<Rightarrow> ([], ''nan''))
      in sign @ replicate (6 - length sign - length body) (CHR ''0'') @ body)"

text \<open>The file name built by \<open>store_data\<close>.\<close>

definition file_name :: "pyfloat \<Rightarrow> pyfloat \<Rightarrow> pyfloat \<Rightarrow> string" where
  "file_name xc yc zc =
     ''X'' @ format_06_2f xc @ ''_Y'' @ format_06_2f yc @ ''_Z'' @ format_06_2f zc @ ''.json''"

section \<open>The file system\<close>

text \<open>
  The document that \<open>store_data\<close> writes: one dictionary per frequency point, inside the
  dictionary of the sample. The keys are the record fields.
\<close>

record data_dict =
  freq_value :: pyfloat
  real_value :: pyfloat
  imaginary_value :: pyfloat

record file_dict =
  x_coord :: pyfloat
  y_coord :: pyfloat
  z_coord :: pyfloat
  antennae_height :: pyfloat
  timestamp :: string
  survey_id :: string
  sample_id :: string
  data :: "data_dict list"

text \<open>
  A file system is the set of its directories and a map from the regular files to their
  contents. The only files the program writes are JSON documents, so the content of a file
  is kept as the dictionary that \<open>json.dumps(_, indent=4)\<close> serialises; the serialisation
  itself, which does not fail on floats, strings and lists, is not modelled.
  A path is the list of its components; empty components and \<open>.\<close> are dropped,
  so \<open>a//b\<close> and \<open>a/b/\<close> name what \<open>a/b\<close> names. The root always exists. Symbolic links,
  \<open>..\<close> and permissions are not modelled.
\<close>

type_synonym path = "string list"

record filesys =
  dirs :: "path set"
  files :: "path \<rightharpoonup> file_dict"

definition path_of :: "string \<Rightarrow> path" where
  "path_of p = filter (\<lambda>c. c \<noteq> [] \<and> c \<noteq> ''.'') (split_on (CHR ''/'') p)"

definition is_dir :: "filesys \<Rightarrow> path \<Rightarrow> bool" where
  "is_dir fs c = (c = [] \<or> c \<in> dirs fs)"

text \<open>\<open>os.path.exists\<close>\<close>

definition path_exists :: "filesys \<Rightarrow> string \<Rightarrow> bool" where
  "path_exists fs p = (let c = path_of p in is_dir fs c \<or> c \<in> dom (files fs))"

text \<open>\<open>os.mkdir\<close>: it raises when the path exists already or its parent is not a directory.\<close>

definition mkdir :: "filesys \<Rightarrow> string \<Rightarrow> error + filesys" where
  "mkdir fs p =
     (let c = path_of p
      in if is_dir fs c \<or> c \<in> dom (files fs) then Inl FileExistsError
         else if butlast c \<in> dom (files fs) then Inl NotADirectoryError
         else if \<not> is_dir fs (butlast c) then Inl FileNotFoundError
         else Inr (fs\<lparr>dirs := insert c (dirs fs)\<rparr>))"

text \<open>\<open>open(p, 'w')\<close> followed by one \<open>write\<close>: the file is created or replaced.\<close>

definition write_file :: "filesys \<Rightarrow> string \<Rightarrow> file_dict \<Rightarrow> error + filesys" where
  "write_file fs p content =
     (let c = path_of p
      in if is_dir fs c then Inl IsADirectoryError
         else if butlast c \<in> dom (files fs) then Inl NotADirectoryError
         else if \<not> is_dir fs (butlast c) then Inl FileNotFoundError
         else Inr (fs\<lparr>files := (files fs)(c \<mapsto> content)\<rparr>))"

section \<open>The storage (\<open>data_storage.py\<close>)\<close>

text \<open>\<open>xs[i]\<close> for a non-negative index.\<close>

definition py_index :: "'a list \<Rightarrow> nat \<Rightarrow> error + 'a" where
  "py_index xs i = (if i < length xs then Inr (xs ! i) else Inl IndexError)"

text \<open>
  One iteration of the loop that formats the data list: the three sequences are indexed at
  \<open>indx\<close>, in the order of the dictionary display, and the dictionary is appended.
\<close>

definition data_step ::
  "pyfloat list \<Rightarrow> pyfloat list \<Rightarrow> pyfloat list \<Rightarrow> nat \<Rightarrow> data_dict list \<Rightarrow> error + data_dict list"
where
  "data_step vna_freq vna_trace_re vna_trace_im indx data_list =
     (case py_index vna_freq indx of
        Inl e \<Rightarrow> Inl e
      | Inr f \<Rightarrow>
          (case py_index vna_trace_re indx of
             Inl e \<Rightarrow> Inl e
           | Inr re \<Rightarrow>
               (case py_index vna_trace_im indx of
                  Inl e \<Rightarrow> Inl e
                | Inr im \<Rightarrow>
                    Inr (data_list @
                         [\<lparr>freq_value = f, real_value = re, imaginary_value = im\<rparr>]))))"

fun data_loop ::
  "pyfloat list \<Rightarrow> pyfloat list \<Rightarrow> pyfloat list \<Rightarrow> nat list \<Rightarrow> data_dict list \<Rightarrow> error + data_dict list"
where
  "data_loop vna_freq vna_trace_re vna_trace_im [] data_list = Inr data_list"
| "data_loop vna_freq vna_trace_re vna_trace_im (indx # rest) data_list =
     (case data_step vna_freq vna_trace_re vna_trace_im indx data_list of
        Inl e \<Rightarrow> Inl e
      | Inr data_list' \<Rightarrow> data_loop vna_freq vna_trace_re vna_trace_im rest data_list')"

text \<open>The loop \<open>for indx in range(len(vna_freq))\<close>, started with the empty list.\<close>

definition format_data_list ::
  "pyfloat list \<Rightarrow> pyfloat list \<Rightarrow> pyfloat list \<Rightarrow> error + data_dict list"
where
  "format_data_list vna_freq vna_trace_re vna_trace_im =
     data_loop vna_freq vna_trace_re vna_trace_im [0 ..< length vna_freq] []"

text \<open>
  The two folder checks test \<open>os.path.exists\<close> and then call \<open>os.mkdir\<close>, with nothing
  around the call to catch what it raises. Other processes share the file system: \<open>other\<close>
  is what they do to it between the test and the call, the identity when the process runs
  alone. \<open>home\<close> is the result of \<open>os.path.expanduser('~')\<close>.
\<close>

definition check_main_folder ::
  "(filesys \<Rightarrow> filesys) \<Rightarrow> string \<Rightarrow> filesys \<Rightarrow> (error + string) \<times> filesys"
where
  "check_main_folder other home fs =
     (let main_folder = home @ ''/gpr20_data/'';
          main_dir_exists = path_exists fs main_folder
      in if \<not> main_dir_exists then
           (case mkdir (other fs) main_folder of
              Inl e \<Rightarrow> (Inl e, other fs)
            | Inr fs' \<Rightarrow> (Inr main_folder, fs'))
         else (Inr main_folder, fs))"

definition check_survey_folder ::
  "(filesys \<Rightarrow> filesys) \<Rightarrow> string \<Rightarrow> filesys \<Rightarrow> (error + unit) \<times> filesys"
where
  "check_survey_folder other path fs =
     (let survey_dir_exists = path_exists fs path
      in if \<not> survey_dir_exists then
           (case mkdir (other fs) path of
              Inl e \<Rightarrow> (Inl e, other fs)
            | Inr fs' \<Rightarrow> (Inr (), fs'))
         else (Inr (), fs))"

text \<open>
  \<open>store_data\<close>. The data list, the document and the file name are computed first; only
  then are the folders checked and the file written.
\<close>

definition store_data ::
  "(filesys \<Rightarrow> filesys) \<Rightarrow> string \<Rightarrow> string \<Rightarrow>
   pyfloat \<Rightarrow> pyfloat \<Rightarrow> pyfloat \<Rightarrow> pyfloat \<Rightarrow> string \<Rightarrow> string \<Rightarrow> string \<Rightarrow>
   pyfloat list \<Rightarrow> pyfloat list \<Rightarrow> pyfloat list \<Rightarrow> filesys \<Rightarrow> (error + unit) \<times> filesys"
where
  "store_data other home survey_dir xc yc zc height ts survey sample
              vna_freq vna_trace_re vna_trace_im fs =
     (case format_data_list vna_freq vna_trace_re vna_trace_im of
        Inl e \<Rightarrow> (Inl e, fs)
      | Inr data_list \<Rightarrow>
          (let json_str = \<lparr>x_coord = xc, y_coord = yc, z_coord = zc,
                           antennae_height = height, timestamp = ts,
                           survey_id = survey, sample_id = sample, data = data_list\<rparr>;
               fname = file_name xc yc zc
           in case check_main_folder other home fs of
                (Inl e, fs1) \<Rightarrow> (Inl e, fs1)
              | (Inr main_dir, fs1) \<Rightarrow>
                  (let survey_path = main_dir @ ''/'' @ survey_dir
                   in case check_survey_folder other survey_path fs1 of
                        (Inl e, fs2) \<Rightarrow> (Inl e, fs2)
                      | (Inr _, fs2) \<Rightarrow>
                          (case write_file fs2 (survey_path @ ''/'' @ fname) json_str of
                             Inl e \<Rightarrow> (Inl e, fs2)
                           | Inr fs3 \<Rightarrow> (Inr (), fs3)))))"

section \<open>The pipeline (\<open>data_processing.py\<close>)\<close>

text \<open>\<open>process_data\<close>: both responses are parsed before anything is stored.\<close>

definition process_data ::
  "(filesys \<Rightarrow> filesys) \<Rightarrow> string \<Rightarrow> string \<Rightarrow>
   pyfloat \<Rightarrow> pyfloat \<Rightarrow> pyfloat \<Rightarrow> pyfloat \<Rightarrow> string \<Rightarrow> string \<Rightarrow> string \<Rightarrow>
   string \<Rightarrow> string \<Rightarrow> filesys \<Rightarrow> (error + unit) \<times> filesys"
where
  "process_data other home survey_dir xc yc zc height ts survey sample
                vna_freq vna_trace fs =
     (case parse_vna_frequency vna_freq of
        Inl e \<Rightarrow> (Inl e, fs)
      | Inr freq \<Rightarrow>
          (case parse_vna_trace vna_trace of
             Inl e \<Rightarrow> (Inl e, fs)
           | Inr (vna_trace_re, vna_trace_im) \<Rightarrow>
               store_data other home survey_dir xc yc zc height ts survey sample
                          freq vna_trace_re vna_trace_im fs))"

section \<open>The vocabulary of the specification\<close>

text \<open>
  The elements of a sequence at the even positions \<open>[a0, a2, ...]\<close> and at the odd positions
  \<open>[a1, a3, ...]\<close>: what a strict deinterleaving returns.
\<close>

definition even_positions :: "'a list \<Rightarrow> 'a list" where
  "even_positions xs = map (\<lambda>i. xs ! i) (filter (\<lambda>i. i mod 2 = 0) [0 ..< length xs])"

definition odd_positions :: "'a list \<Rightarrow> 'a list" where
  "odd_positions xs = map (\<lambda>i. xs ! i) (filter (\<lambda>i. i mod 2 = 1) [0 ..< length xs])"

text \<open>A comma-separated list of literals ending with a trailing comma.\<close>

definition encode_payload :: "string list \<Rightarrow> string" where
  "encode_payload lits = concat (map (\<lambda>l. l @ '','') lits)"

text \<open>
  A file system used in the examples: the home directory \<open>/home/u\<close> exists and is empty.
\<close>

definition home_fs :: filesys where
  "home_fs = \<lparr>dirs = {[''home''], [''home'', ''u'']}, files = Map.empty\<rparr>"

section \<open>The decoder on well-formed responses\<close>

lemma split_on_append_sep:
  "sep \<notin> set l \<Longrightarrow> split_on sep (l @ sep # rest) = l # split_on sep rest"
  by (induction l) auto

lemma split_on_encode_payload:
  "\<forall>l \<in> set lits. CHR '','' \<notin> set l \<Longrightarrow>
   split_on (CHR '','') (encode_payload lits) = lits @ [[]]"
  by (induction lits) (auto simp: encode_payload_def split_on_append_sep)

lemma int_of_char_digit_char: "n \<le> 9 \<Longrightarrow> int_of_char (digit_char n) = Inr n"
proof -
  assume "n \<le> 9"
  then have "n \<in> {0,1,2,3,4,5,6,7,8,9}" by auto
  then show ?thesis
    by (auto simp: int_of_char_def digit_char_def is_digit_def digit_val_def)
qed

lemma remove_header_valid:
  "n \<le> 9 \<Longrightarrow> length hdr = n \<Longrightarrow>
   remove_header (c # digit_char n # hdr @ payload) = Inr payload"
  by (simp add: remove_header_def int_of_char_digit_char)

section \<open>The trace splitter\<close>

lemma fold_trace_step:
  "n \<le> length xs \<Longrightarrow>
   fold (trace_step xs) [0 ..< n] ([], []) =
     (map (\<lambda>i. xs ! i) (filter (\<lambda>i. i mod 2 = 0) [0 ..< n]),
      map (\<lambda>i. xs ! i) (filter (\<lambda>i. i mod 2 = 0) [0 ..< n]))"
proof (induction n)
  case 0
  then show ?case by simp
next
  case (Suc n)
  then show ?case by (simp add: trace_step_def)
qed

lemma split_trace_even: "split_trace xs = (even_positions xs, even_positions xs)"
  by (simp add: split_trace_def even_positions_def fold_trace_step)

lemma parse_vna_trace_via_frequency:
  "parse_vna_trace s =
     (case parse_vna_frequency s of Inl e \<Rightarrow> Inl e | Inr xs \<Rightarrow> Inr (split_trace xs))"
  by (simp add: parse_vna_trace_def parse_vna_frequency_def split: sum.splits)

section \<open>No float literal contains a comma\<close>

lemma dropWhile_keeps: "\<not> P x \<Longrightarrow> x \<in> set xs \<Longrightarrow> x \<in> set (dropWhile P xs)"
  by (induction xs) auto

lemma strip_keeps: "\<not> is_space x \<Longrightarrow> x \<in> set s \<Longrightarrow> x \<in> set (strip s)"
  by (simp add: strip_def dropWhile_keeps)

lemma comma_props: "\<not> is_space (CHR '','')" "\<not> is_digit (CHR '','')" "to_lower (CHR '','') = CHR '',''"
  by (simp_all add: is_space_def is_digit_def to_lower_def)

lemma parse_digits_no_comma: "CHR '','' \<in> set s \<Longrightarrow> parse_digits s = None"
  using comma_props(2) by (auto simp: parse_digits_def list_all_iff)

lemma parse_exponent_no_comma:
  assumes "CHR '','' \<in> set s" shows "parse_exponent s = None"
proof (cases s)
  case Nil
  with assms show ?thesis by simp
next
  case (Cons c r)
  show ?thesis
  proof (cases "c = CHR ''e'' \<or> c = CHR ''E''")
    case False
    with Cons show ?thesis by (simp add: parse_exponent_def)
  next
    case True
    with Cons assms have r: "CHR '','' \<in> set r" by auto
    show ?thesis
    proof (cases r)
      case Nil
      with r show ?thesis by simp
    next
      case (Cons d r')
      have "parse_digits r = None" using r by (rule parse_digits_no_comma)
      moreover have "d = CHR ''-'' \<or> d = CHR ''+'' \<Longrightarrow> parse_digits r' = None"
        using r Cons by (auto intro: parse_digits_no_comma)
      ultimately show ?thesis
        using True \<open>s = c # r\<close> Cons by (auto simp: parse_exponent_def)
    qed
  qed
qed

lemma parse_decimal_no_comma:
  assumes "CHR '','' \<in> set s" shows "parse_decimal s = None"
proof -
  let ?r1 = "dropWhile is_digit s"
  have r1: "CHR '','' \<in> set ?r1" using assms by (simp add: dropWhile_keeps comma_props)
  show ?thesis
  proof (cases ?r1)
    case Nil
    with r1 show ?thesis by simp
  next
    case (Cons c r)
    show ?thesis
    proof (cases "c = CHR ''.''")
      case True
      with Cons r1 have "CHR '','' \<in> set r" by auto
      then have "CHR '','' \<in> set (dropWhile is_digit r)" by (simp add: dropWhile_keeps comma_props)
      then have "parse_exponent (dropWhile is_digit r) = None" by (rule parse_exponent_no_comma)
      with Cons True show ?thesis by (simp add: parse_decimal_def Let_def)
    next
      case False
      have "parse_exponent ?r1 = None" using r1 by (rule parse_exponent_no_comma)
      with Cons False show ?thesis by (simp add: parse_decimal_def Let_def)
    qed
  qed
qed

lemma sign_split_keeps:
  assumes "CHR '','' \<in> set t"
    and "(case t of [] \<Rightarrow> (False, [])
          | c # r \<Rightarrow> if c = CHR ''-'' then (True, r)
                      else if c = CHR ''+'' then (False, r)
                      else (False, t)) = (neg, body)"
  shows "CHR '','' \<in> set body"
proof (cases t)
  case Nil
  with assms show ?thesis by simp
next
  case (Cons c r)
  with assms show ?thesis by (auto split: if_splits)
qed

lemma py_float_no_comma:
  assumes "CHR '','' \<in> set s" shows "py_float s = None"
proof -
  let ?t = "strip (filter (\<lambda>c. c \<noteq> CHR ''_'') s)"
  have t: "CHR '','' \<in> set ?t" using assms by (simp add: strip_keeps comma_props)
  obtain neg body where nb: "(case ?t of
                              [] \<Rightarrow> (False, [])
                            | c # r \<Rightarrow> if c = CHR ''-'' then (True, r)
                                        else if c = CHR ''+'' then (False, r)
                                        else (False, ?t)) = (neg, body)"
    by fastforce
  have body: "CHR '','' \<in> set body" using t nb by (rule sign_split_keeps)
  then have low: "CHR '','' \<in> set (map to_lower body)"
    using comma_props(3) by (metis image_eqI set_map)
  have "map to_lower body \<noteq> ''inf''" "map to_lower body \<noteq> ''infinity''" "map to_lower body \<noteq> ''nan''"
    using low by auto
  moreover have "parse_decimal body = None" using body by (rule parse_decimal_no_comma)
  ultimately show ?thesis using nb by (simp add: py_float_def)
qed


lemma floats_of_all2:
  "list_all2 (\<lambda>l v. py_float l = Some v) lits vals \<Longrightarrow> floats_of lits = Inr vals"
  by (induction lits vals rule: list_all2_induct) auto

lemma all2_no_comma:
  assumes "list_all2 (\<lambda>l v. py_float l = Some v) lits vals"
  shows "\<forall>l \<in> set lits. CHR '','' \<notin> set l"
proof
  fix l assume "l \<in> set lits"
  then obtain v where "py_float l = Some v"
    using assms by (auto simp: list_all2_conv_all_nth in_set_conv_nth)
  then show "CHR '','' \<notin> set l" using py_float_no_comma by fastforce
qed

lemma create_array_encode_payload:
  assumes "list_all2 (\<lambda>l v. py_float l = Some v) lits vals"
  shows "create_array (encode_payload lits) = Inr vals"
proof -
  have "split_on (CHR '','') (encode_payload lits) = lits @ [[]]"
    using all2_no_comma [OF assms] by (rule split_on_encode_payload)
  then show ?thesis by (simp add: create_array_def floats_of_all2 [OF assms])
qed

text \<open>
  Claim C2. A response made of \<open>#\<close>, one decimal digit \<open>n\<close>, \<open>n\<close> header characters and
  a list of float literals, each followed by a comma, decodes to the floats the literals
  denote, in their order. The header may hold any characters; the literals are exactly the
  strings that \<open>float\<close> accepts.
\<close>

theorem parse_vna_frequency_valid:
  assumes "n \<le> 9" and "length hdr = n"
    and "list_all2 (\<lambda>l v. py_float l = Some v) lits vals"
  shows "parse_vna_frequency (CHR ''#'' # digit_char n # hdr @ encode_payload lits) = Inr vals"
  using assms by (simp add: parse_vna_frequency_def remove_header_valid create_array_encode_payload)

lemma py_float_examples:
  "py_float ''1.0'' = Some (Finite 1)"
  "py_float ''2.0'' = Some (Finite 2)"
  "py_float ''3.0'' = Some (Finite 3)"
  "py_float ''4.0'' = Some (Finite 4)"
  "py_float ''xxxxxxxxxxxxxxx1.0'' = None"
  by code_simp+

text \<open>The statement at the response \<open>#3abc1.0,2.0,\<close>.\<close>

theorem parse_vna_frequency_valid_witness:
  "(3::nat) \<le> 9 \<and> length ''abc'' = 3 \<and>
   list_all2 (\<lambda>l v. py_float l = Some v) [''1.0'', ''2.0''] [Finite 1, Finite 2] \<and>
   parse_vna_frequency ''#3abc1.0,2.0,'' = Inr [Finite 1, Finite 2]"
  using parse_vna_frequency_valid [of 3 "''abc''" "[''1.0'', ''2.0'']" "[Finite 1, Finite 2]"]
  by (simp add: py_float_examples digit_char_def encode_payload_def)

text \<open>
  Claim C1. The specification asks for a strict deinterleaving, and the comment in the source
  says that odd index values go to the second list. The second conditional of the loop is
  \<open>indx % 2 != 1\<close>, which holds at the even indices: on the response
  \<open>#01.0,2.0,3.0,4.0,\<close> both lists are \<open>[1.0, 3.0]\<close>, and the values \<open>[2.0, 4.0]\<close> at the odd
  positions are in neither.
\<close>

theorem parse_vna_trace_duplicates_even_positions:
  "parse_vna_frequency ''#01.0,2.0,3.0,4.0,'' = Inr [Finite 1, Finite 2, Finite 3, Finite 4] \<and>
   parse_vna_trace ''#01.0,2.0,3.0,4.0,'' = Inr ([Finite 1, Finite 3], [Finite 1, Finite 3]) \<and>
   odd_positions [Finite 1, Finite 2, Finite 3, Finite 4] = [Finite 2, Finite 4]"
  by code_simp

text \<open>
  Claim C9. Whenever \<open>parse_vna_trace\<close> succeeds, the list of imaginary components is the
  list of real components, and both are the values at the even positions of the decoded
  sequence; so they have the same length and no value at an odd position is returned.
\<close>

theorem parse_vna_trace_outputs_equal:
  assumes "parse_vna_trace s = Inr (vna_trace_re, vna_trace_im)"
  shows "vna_trace_im = vna_trace_re \<and>
         (\<exists>xs. parse_vna_frequency s = Inr xs \<and> vna_trace_re = even_positions xs) \<and>
         length vna_trace_im = length vna_trace_re"
  using assms
  by (auto simp: parse_vna_trace_via_frequency split_trace_even split: sum.splits)

text \<open>The statement at the response \<open>#01.0,2.0,3.0,\<close>.\<close>

theorem parse_vna_trace_outputs_equal_witness:
  "parse_vna_trace ''#01.0,2.0,3.0,'' = Inr ([Finite 1, Finite 3], [Finite 1, Finite 3]) \<and>
   [Finite 1, Finite 3] = [Finite 1, Finite 3 :: pyfloat] \<and>
   (\<exists>xs. parse_vna_frequency ''#01.0,2.0,3.0,'' = Inr xs \<and>
         [Finite 1, Finite 3] = even_positions xs)"
proof -
  have h: "parse_vna_trace ''#01.0,2.0,3.0,'' = Inr ([Finite 1, Finite 3], [Finite 1, Finite 3])"
    by code_simp
  show ?thesis using h parse_vna_trace_outputs_equal [OF h] by simp
qed

text \<open>
  Claim C10. The first character of a response is dropped without being looked at: two
  responses with the same characters after the first one decode to the same result, value
  or failure alike.
\<close>

theorem first_character_ignored:
  "parse_vna_frequency (c # rest) = parse_vna_frequency (d # rest)"
  by (simp add: parse_vna_frequency_def remove_header_def)

text \<open>
  Claim C5, as stated: the response \<open>#15xxxxxxxxxxxxxxx1.0,2.0,3.0,\<close> does not decode to
  \<open>[1.0, 2.0, 3.0]\<close>.
\<close>

theorem two_digit_header_counterexample:
  "parse_vna_frequency ''#15xxxxxxxxxxxxxxx1.0,2.0,3.0,'' \<noteq> Inr [Finite 1, Finite 2, Finite 3]"
  by code_simp

text \<open>
  Claim C5, amended. The header length is the single digit after \<open>#\<close>: in
  \<open>#15xxxxxxxxxxxxxxx1.0,2.0,3.0,\<close> it is 1, the header is the character \<open>5\<close>, the first
  segment of the payload is \<open>xxxxxxxxxxxxxxx1.0\<close> and decoding raises \<open>ValueError\<close>. With a
  one-digit length, \<open>#5xxxxx1.0,2.0,3.0,\<close> decodes to \<open>[1.0, 2.0, 3.0]\<close>.
\<close>

theorem single_digit_header:
  "remove_header ''#15xxxxxxxxxxxxxxx1.0,2.0,3.0,'' = Inr ''xxxxxxxxxxxxxxx1.0,2.0,3.0,'' \<and>
   parse_vna_frequency ''#15xxxxxxxxxxxxxxx1.0,2.0,3.0,'' = Inl ValueError \<and>
   parse_vna_frequency ''#5xxxxx1.0,2.0,3.0,'' = Inr [Finite 1, Finite 2, Finite 3]"
  by code_simp

section \<open>The decoder on malformed responses\<close>

lemma floats_of_bad_segment:
  "i < length segs \<Longrightarrow> py_float (segs ! i) = None \<Longrightarrow> floats_of segs = Inl ValueError"
proof (induction segs arbitrary: i)
  case Nil
  then show ?case by simp
next
  case (Cons seg segs)
  show ?case
  proof (cases i)
    case 0
    with Cons.prems show ?thesis by simp
  next
    case (Suc j)
    with Cons.prems have "floats_of segs = Inl ValueError"
      using Cons.IH [of j] by simp
    then show ?thesis by (simp split: option.splits)
  qed
qed

lemma create_array_bad_segment:
  assumes "i < length (split_on (CHR '','') p) - 1"
    and "py_float (split_on (CHR '','') p ! i) = None"
  shows "create_array p = Inl ValueError"
proof -
  let ?segs = "split_on (CHR '','') p"
  have "i < length (take (length ?segs - 1) ?segs)" using assms(1) by simp
  moreover have "py_float (take (length ?segs - 1) ?segs ! i) = None"
    using assms by simp
  ultimately show ?thesis
    unfolding create_array_def Let_def by (rule floats_of_bad_segment)
qed

lemma remove_header_short: "length s < 2 \<Longrightarrow> remove_header s = Inl IndexError"
  by (cases s) (auto simp: remove_header_def)

lemma remove_header_bad_digit:
  "2 \<le> length s \<Longrightarrow> \<not> is_digit (s ! 1) \<Longrightarrow> remove_header s = Inl ValueError"
  by (cases s; cases "tl s") (auto simp: remove_header_def int_of_char_def)

lemma remove_header_digit:
  "2 \<le> length s \<Longrightarrow> is_digit (s ! 1) \<Longrightarrow>
   remove_header s = Inr (drop (digit_val (s ! 1) + 2) s)"
  by (cases s; cases "tl s") (auto simp: remove_header_def int_of_char_def)

lemma create_array_empty: "create_array [] = Inr []"
  by (simp add: create_array_def)

text \<open>
  Claim C3, as stated: the response \<open>#5ab\<close> promises a header of five characters and holds
  two. Decoding does not fail: it returns the empty list.
\<close>

theorem truncated_response_counterexample:
  "length ''#5ab'' < 2 + digit_val (CHR ''5'') \<and> parse_vna_frequency ''#5ab'' = Inr []"
  by code_simp

text \<open>
  Claim C3, amended. Decoding raises \<open>ValueError\<close> when the character after the first one is
  not a decimal digit, and when a segment of the payload other than the last one is not a
  float literal. It raises \<open>IndexError\<close> only when the response has fewer than two
  characters. A response of at least two characters that is shorter than its header length
  promises decodes to the empty list, because a slice past the end of a string is empty.
  The trace decoder fails exactly when the frequency decoder does, with the same error.
\<close>

theorem decode_failure_cases:
  "(2 \<le> length s \<and> \<not> is_digit (s ! 1) \<longrightarrow> parse_vna_frequency s = Inl ValueError) \<and>
   (remove_header s = Inr p \<and> i < length (split_on (CHR '','') p) - 1 \<and>
      py_float (split_on (CHR '','') p ! i) = None \<longrightarrow> parse_vna_frequency s = Inl ValueError) \<and>
   (length s < 2 \<longrightarrow> parse_vna_frequency s = Inl IndexError) \<and>
   (2 \<le> length s \<and> is_digit (s ! 1) \<and> length s < 2 + digit_val (s ! 1) \<longrightarrow>
      parse_vna_frequency s = Inr []) \<and>
   parse_vna_trace s =
     (case parse_vna_frequency s of Inl e \<Rightarrow> Inl e | Inr xs \<Rightarrow> Inr (split_trace xs))"
proof (intro conjI impI)
  show "parse_vna_trace s =
     (case parse_vna_frequency s of Inl e \<Rightarrow> Inl e | Inr xs \<Rightarrow> Inr (split_trace xs))"
    by (rule parse_vna_trace_via_frequency)
next
  assume "2 \<le> length s \<and> \<not> is_digit (s ! 1)"
  then show "parse_vna_frequency s = Inl ValueError"
    by (simp add: parse_vna_frequency_def remove_header_bad_digit)
next
  assume h: "remove_header s = Inr p \<and> i < length (split_on (CHR '','') p) - 1 \<and>
      py_float (split_on (CHR '','') p ! i) = None"
  then have "create_array p = Inl ValueError"
    using create_array_bad_segment [of i p] by blast
  with h show "parse_vna_frequency s = Inl ValueError"
    by (simp add: parse_vna_frequency_def)
next
  assume "length s < 2"
  then show "parse_vna_frequency s = Inl IndexError"
    by (simp add: parse_vna_frequency_def remove_header_short)
next
  assume "2 \<le> length s \<and> is_digit (s ! 1) \<and> length s < 2 + digit_val (s ! 1)"
  then show "parse_vna_frequency s = Inr []"
    by (simp add: parse_vna_frequency_def remove_header_digit create_array_empty)
qed

text \<open>
  The four cases at the responses \<open>#x1.0,\<close>, \<open>#01.0,abc,2.0,\<close>, \<open>#\<close> and \<open>#5ab\<close>.
\<close>

theorem decode_failure_cases_witness:
  "parse_vna_frequency ''#x1.0,'' = Inl ValueError \<and>
   parse_vna_frequency ''#01.0,abc,2.0,'' = Inl ValueError \<and>
   parse_vna_frequency ''#'' = Inl IndexError \<and>
   parse_vna_frequency ''#5ab'' = Inr []"
proof -
  have a: "2 \<le> length ''#x1.0,'' \<and> \<not> is_digit (''#x1.0,'' ! 1)"
    by (simp add: is_digit_def)
  have b: "remove_header ''#01.0,abc,2.0,'' = Inr ''1.0,abc,2.0,'' \<and>
           1 < length (split_on (CHR '','') ''1.0,abc,2.0,'') - 1 \<and>
           py_float (split_on (CHR '','') ''1.0,abc,2.0,'' ! 1) = None"
    by code_simp
  have c: "length ''#'' < 2" by simp
  have d: "2 \<le> length ''#5ab'' \<and> is_digit (''#5ab'' ! 1) \<and>
           length ''#5ab'' < 2 + digit_val (''#5ab'' ! 1)"
    by (simp add: is_digit_def digit_val_def)
  have "parse_vna_frequency ''#x1.0,'' = Inl ValueError"
    using a decode_failure_cases [of "''#x1.0,''" "[]" 0] by blast
  moreover have "parse_vna_frequency ''#01.0,abc,2.0,'' = Inl ValueError"
    using b decode_failure_cases [of "''#01.0,abc,2.0,''" "''1.0,abc,2.0,''" 1] by blast
  moreover have "parse_vna_frequency ''#'' = Inl IndexError"
    using c decode_failure_cases [of "''#''" "[]" 0] by blast
  moreover have "parse_vna_frequency ''#5ab'' = Inr []"
    using d decode_failure_cases [of "''#5ab''" "[]" 0] by blast
  ultimately show ?thesis by simp
qed

section \<open>The file name\<close>








lemma file_name_example:
  "file_name (Finite (3 / 2)) (Finite (9 / 4)) (Finite 0) = ''X001.50_Y002.25_Z000.00.json''"
  by code_simp


lemma path_of_example:
  "path_of ''/home/u/gpr20_data//s1/X001.50_Y002.25_Z000.00.json'' =
     [''home'', ''u'', ''gpr20_data'', ''s1'', ''X001.50_Y002.25_Z000.00.json'']"
  "path_of ''/home/u/gpr20_data//s1'' = [''home'', ''u'', ''gpr20_data'', ''s1'']"
  "path_of ''/home/u/gpr20_data/'' = [''home'', ''u'', ''gpr20_data'']"
  by (simp_all add: path_of_def)

lemma store_data_example:
  "store_data id ''/home/u'' ''s1'' (Finite (3 / 2)) (Finite (9 / 4)) (Finite 0) (Finite 0)
       ''t'' ''a'' ''b'' [Finite 1] [Finite 2, Finite 3] [Finite 4, Finite 5] home_fs =
     (Inr (),
      \<lparr>dirs = {[''home'', ''u'', ''gpr20_data'', ''s1''], [''home'', ''u'', ''gpr20_data''],
               [''home''], [''home'', ''u'']},
       files = [[''home'', ''u'', ''gpr20_data'', ''s1'', ''X001.50_Y002.25_Z000.00.json''] \<mapsto>
                  \<lparr>x_coord = Finite (3 / 2), y_coord = Finite (9 / 4), z_coord = Finite 0,
                   antennae_height = Finite 0, timestamp = ''t'', survey_id = ''a'',
                   sample_id = ''b'',
                   data = [\<lparr>freq_value = Finite 1, real_value = Finite 2,
                            imaginary_value = Finite 4\<rparr>]\<rparr>]\<rparr>)"
  by (simp add: store_data_def format_data_list_def data_step_def py_index_def
      check_main_folder_def check_survey_folder_def path_exists_def mkdir_def write_file_def
      is_dir_def path_of_example home_fs_def file_name_example Let_def)



section \<open>The record builder\<close>

lemma data_loop_in_range:
  "\<forall>i \<in> set idxs. i < length f \<and> i < length re \<and> i < length im \<Longrightarrow>
   data_loop f re im idxs acc =
     Inr (acc @ map (\<lambda>i. \<lparr>freq_value = f ! i, real_value = re ! i, imaginary_value = im ! i\<rparr>) idxs)"
  by (induction idxs arbitrary: acc) (auto simp: data_step_def py_index_def)

lemma data_loop_out_of_range:
  "\<forall>i \<in> set idxs. i < length f \<Longrightarrow>
   \<exists>i \<in> set idxs. \<not> (i < length re \<and> i < length im) \<Longrightarrow>
   data_loop f re im idxs acc = Inl IndexError"
proof (induction idxs arbitrary: acc)
  case Nil
  then show ?case by simp
next
  case (Cons i idxs)
  show ?case
  proof (cases "i < length re \<and> i < length im")
    case False
    with Cons.prems(1) show ?thesis by (auto simp: data_step_def py_index_def)
  next
    case True
    with Cons.prems have "\<exists>j \<in> set idxs. \<not> (j < length re \<and> j < length im)" by auto
    moreover have "\<forall>j \<in> set idxs. j < length f" using Cons.prems(1) by simp
    ultimately have "\<And>acc'. data_loop f re im idxs acc' = Inl IndexError"
      using Cons.IH by blast
    with True Cons.prems(1) show ?thesis by (simp add: data_step_def py_index_def)
  qed
qed

lemma format_data_list_short:
  assumes "length re < length f \<or> length im < length f"
  shows "format_data_list f re im = Inl IndexError"
proof -
  have "\<exists>i \<in> set [0 ..< length f]. \<not> (i < length re \<and> i < length im)"
  proof (cases "length re < length f")
    case True
    then have "length re \<in> set [0 ..< length f]" by simp
    then show ?thesis by blast
  next
    case False
    with assms have "length im \<in> set [0 ..< length f]" by simp
    then show ?thesis by blast
  qed
  then show ?thesis
    unfolding format_data_list_def by (intro data_loop_out_of_range) auto
qed

lemma format_data_list_long:
  assumes "length f \<le> length re" and "length f \<le> length im"
  shows "format_data_list f re im =
     Inr (map (\<lambda>i. \<lparr>freq_value = f ! i, real_value = re ! i, imaginary_value = im ! i\<rparr>)
            [0 ..< length f])"
  using assms by (simp add: format_data_list_def data_loop_in_range)

lemma format_data_list_take:
  assumes "length f \<le> length re" and "length f \<le> length im"
  shows "format_data_list f (take (length f) re) (take (length f) im) = format_data_list f re im"
  using assms by (simp add: format_data_list_long)

text \<open>
  Claim C4, as stated: with one frequency and two real and two imaginary values,
  \<open>store_data\<close> reports nothing and writes a document with one data element; the second
  real and imaginary values are dropped.
\<close>

theorem store_data_truncates_counterexample:
  "length [Finite 1] < length [Finite 2, Finite 3] \<and>
   store_data id ''/home/u'' ''s1'' (Finite (3 / 2)) (Finite (9 / 4)) (Finite 0) (Finite 0)
       ''t'' ''a'' ''b'' [Finite 1] [Finite 2, Finite 3] [Finite 4, Finite 5] home_fs =
     (Inr (),
      \<lparr>dirs = {[''home'', ''u'', ''gpr20_data'', ''s1''], [''home'', ''u'', ''gpr20_data''],
               [''home''], [''home'', ''u'']},
       files = [[''home'', ''u'', ''gpr20_data'', ''s1'', ''X001.50_Y002.25_Z000.00.json''] \<mapsto>
                  \<lparr>x_coord = Finite (3 / 2), y_coord = Finite (9 / 4), z_coord = Finite 0,
                   antennae_height = Finite 0, timestamp = ''t'', survey_id = ''a'',
                   sample_id = ''b'',
                   data = [\<lparr>freq_value = Finite 1, real_value = Finite 2,
                            imaginary_value = Finite 4\<rparr>]\<rparr>]\<rparr>)"
  using store_data_example by simp

text \<open>
  Claim C4, amended. When the real or the imaginary sequence is shorter than the frequency
  sequence, \<open>store_data\<close> raises \<open>IndexError\<close> and the file system is unchanged. When both
  are at least as long, no length check is made: the data list has one element for each
  frequency, and \<open>store_data\<close> does what it does on the two sequences cut to the number of
  frequencies.
\<close>

theorem store_data_length_mismatch:
  "(length vna_trace_re < length vna_freq \<or> length vna_trace_im < length vna_freq \<longrightarrow>
      store_data other home survey_dir xc yc zc height ts survey sample
                 vna_freq vna_trace_re vna_trace_im fs = (Inl IndexError, fs)) \<and>
   (length vna_freq \<le> length vna_trace_re \<and> length vna_freq \<le> length vna_trace_im \<longrightarrow>
      format_data_list vna_freq vna_trace_re vna_trace_im =
        Inr (map (\<lambda>i. \<lparr>freq_value = vna_freq ! i, real_value = vna_trace_re ! i,
                        imaginary_value = vna_trace_im ! i\<rparr>) [0 ..< length vna_freq]) \<and>
      store_data other home survey_dir xc yc zc height ts survey sample
                 vna_freq vna_trace_re vna_trace_im fs =
      store_data other home survey_dir xc yc zc height ts survey sample
                 vna_freq (take (length vna_freq) vna_trace_re)
                 (take (length vna_freq) vna_trace_im) fs)"
proof (intro conjI impI)
  assume "length vna_trace_re < length vna_freq \<or> length vna_trace_im < length vna_freq"
  then show "store_data other home survey_dir xc yc zc height ts survey sample
                 vna_freq vna_trace_re vna_trace_im fs = (Inl IndexError, fs)"
    by (simp add: store_data_def format_data_list_short)
next
  assume h: "length vna_freq \<le> length vna_trace_re \<and> length vna_freq \<le> length vna_trace_im"
  then show "format_data_list vna_freq vna_trace_re vna_trace_im =
        Inr (map (\<lambda>i. \<lparr>freq_value = vna_freq ! i, real_value = vna_trace_re ! i,
                        imaginary_value = vna_trace_im ! i\<rparr>) [0 ..< length vna_freq])"
    by (simp add: format_data_list_long)
next
  assume h: "length vna_freq \<le> length vna_trace_re \<and> length vna_freq \<le> length vna_trace_im"
  then have "format_data_list vna_freq (take (length vna_freq) vna_trace_re)
               (take (length vna_freq) vna_trace_im) =
             format_data_list vna_freq vna_trace_re vna_trace_im"
    by (simp add: format_data_list_take)
  then show "store_data other home survey_dir xc yc zc height ts survey sample
                 vna_freq vna_trace_re vna_trace_im fs =
      store_data other home survey_dir xc yc zc height ts survey sample
                 vna_freq (take (length vna_freq) vna_trace_re)
                 (take (length vna_freq) vna_trace_im) fs"
    by (simp add: store_data_def)
qed

text \<open>
  The two cases: a real sequence shorter than the frequencies, and sequences longer than them.
\<close>

theorem store_data_length_mismatch_witness:
  "store_data id ''/home/u'' ''s1'' (Finite 0) (Finite 0) (Finite 0) (Finite 0) ''t'' ''a'' ''b''
     [Finite 1, Finite 2] [Finite 3] [Finite 4, Finite 5] home_fs = (Inl IndexError, home_fs) \<and>
   format_data_list [Finite 1] [Finite 2, Finite 3] [Finite 4, Finite 5] =
     Inr [\<lparr>freq_value = Finite 1, real_value = Finite 2, imaginary_value = Finite 4\<rparr>] \<and>
   store_data id ''/home/u'' ''s1'' (Finite 0) (Finite 0) (Finite 0) (Finite 0) ''t'' ''a'' ''b''
     [Finite 1] [Finite 2, Finite 3] [Finite 4, Finite 5] home_fs =
   store_data id ''/home/u'' ''s1'' (Finite 0) (Finite 0) (Finite 0) (Finite 0) ''t'' ''a'' ''b''
     [Finite 1] [Finite 2] [Finite 4] home_fs"
  using
    store_data_length_mismatch [of "[Finite 3]" "[Finite 1, Finite 2]" "[Finite 4, Finite 5]"
      id "''/home/u''" "''s1''" "Finite 0" "Finite 0" "Finite 0" "Finite 0" "''t''" "''a''" "''b''" home_fs]
    store_data_length_mismatch [of "[Finite 2, Finite 3]" "[Finite 1]" "[Finite 4, Finite 5]"
      id "''/home/u''" "''s1''" "Finite 0" "Finite 0" "Finite 0" "Finite 0" "''t''" "''a''" "''b''" home_fs]
  by simp

section \<open>The pipeline\<close>

text \<open>
  Claim C6. When the frequency response or the trace response fails to parse,
  \<open>process_data\<close> fails with an error and the file system is the one it was called with:
  no directory is created and no file is written.
\<close>

theorem process_data_parse_failure:
  assumes "isl (parse_vna_frequency vna_freq) \<or> isl (parse_vna_trace vna_trace)"
  shows "\<exists>e. process_data other home survey_dir xc yc zc height ts survey sample
                vna_freq vna_trace fs = (Inl e, fs)"
  using assms by (auto simp: process_data_def isl_def split: sum.splits)

text \<open>The statement at a trace response whose second segment is not a float.\<close>

theorem process_data_parse_failure_witness:
  "isl (parse_vna_trace ''#01.0,x,'') \<and>
   (\<exists>e. process_data id ''/home/u'' ''s1'' (Finite 0) (Finite 0) (Finite 0) (Finite 0)
           ''t'' ''a'' ''b'' ''#01.0,'' ''#01.0,x,'' home_fs = (Inl e, home_fs))"
proof -
  have h: "isl (parse_vna_trace ''#01.0,x,'')" by code_simp
  then have "isl (parse_vna_frequency ''#01.0,'') \<or> isl (parse_vna_trace ''#01.0,x,'')" by simp
  from process_data_parse_failure [OF this] h show ?thesis by simp
qed

section \<open>The folder checks\<close>

lemma mkdir_exists: "path_exists fs p \<Longrightarrow> mkdir fs p = Inl FileExistsError"
  by (simp add: mkdir_def path_exists_def Let_def)

text \<open>
  Claim C8, as stated: the main folder does not exist when \<open>check_main_folder\<close> tests it,
  and another process creates it before \<open>os.mkdir\<close> is called. The call raises
  \<open>FileExistsError\<close>, which \<open>check_main_folder\<close> and \<open>store_data\<close> pass on to the caller.
\<close>

theorem concurrent_creation_counterexample:
  "\<not> path_exists home_fs ''/home/u/gpr20_data/'' \<and>
   path_exists (dirs_update (insert [''home'', ''u'', ''gpr20_data'']) home_fs)
     ''/home/u/gpr20_data/'' \<and>
   fst (check_main_folder (dirs_update (insert [''home'', ''u'', ''gpr20_data''])) ''/home/u''
          home_fs) = Inl FileExistsError \<and>
   fst (store_data (dirs_update (insert [''home'', ''u'', ''gpr20_data''])) ''/home/u'' ''s1''
          (Finite 0) (Finite 0) (Finite 0) (Finite 0) ''t'' ''a'' ''b''
          [Finite 1] [Finite 2] [Finite 3] home_fs) = Inl FileExistsError"
  by (simp add: store_data_def format_data_list_def data_step_def py_index_def
      check_main_folder_def path_exists_def mkdir_def is_dir_def path_of_example home_fs_def Let_def)

text \<open>
  Claim C8, amended. A folder that exists when it is tested is not created again, and the
  check succeeds without changing the file system. A folder that does not exist when it is
  tested and exists when \<open>os.mkdir\<close> is called makes the check fail with
  \<open>FileExistsError\<close>: the error is not caught.
\<close>

theorem folder_checks:
  "(path_exists fs path \<longrightarrow> check_survey_folder other path fs = (Inr (), fs)) \<and>
   (\<not> path_exists fs path \<and> path_exists (other fs) path \<longrightarrow>
      check_survey_folder other path fs = (Inl FileExistsError, other fs)) \<and>
   (path_exists fs (home @ ''/gpr20_data/'') \<longrightarrow>
      check_main_folder other home fs = (Inr (home @ ''/gpr20_data/''), fs)) \<and>
   (\<not> path_exists fs (home @ ''/gpr20_data/'') \<and> path_exists (other fs) (home @ ''/gpr20_data/'') \<longrightarrow>
      check_main_folder other home fs = (Inl FileExistsError, other fs))"
  by (simp add: check_survey_folder_def check_main_folder_def mkdir_exists)

text \<open>The four cases on the example file system.\<close>

theorem folder_checks_witness:
  "check_survey_folder id ''/home/u'' home_fs = (Inr (), home_fs) \<and>
   check_survey_folder (dirs_update (insert [''home'', ''u'', ''gpr20_data''])) ''/home/u/gpr20_data/''
      home_fs = (Inl FileExistsError, dirs_update (insert [''home'', ''u'', ''gpr20_data'']) home_fs) \<and>
   check_main_folder id ''/home'' (dirs_update (insert [''home'', ''gpr20_data'']) home_fs) =
      (Inr ''/home/gpr20_data/'', dirs_update (insert [''home'', ''gpr20_data'']) home_fs) \<and>
   check_main_folder (dirs_update (insert [''home'', ''u'', ''gpr20_data''])) ''/home/u'' home_fs =
      (Inl FileExistsError, dirs_update (insert [''home'', ''u'', ''gpr20_data'']) home_fs)"
proof -
  have a: "path_exists home_fs ''/home/u''"
    by (simp add: path_exists_def is_dir_def path_of_def home_fs_def)
  have b: "\<not> path_exists home_fs ''/home/u/gpr20_data/'' \<and>
           path_exists (dirs_update (insert [''home'', ''u'', ''gpr20_data'']) home_fs)
             ''/home/u/gpr20_data/''"
    by (simp add: path_exists_def is_dir_def path_of_example home_fs_def)
  have c: "path_exists (dirs_update (insert [''home'', ''gpr20_data'']) home_fs)
             (''/home'' @ ''/gpr20_data/'')"
    by (simp add: path_exists_def is_dir_def path_of_def home_fs_def)
  have d: "\<not> path_exists home_fs (''/home/u'' @ ''/gpr20_data/'') \<and>
           path_exists (dirs_update (insert [''home'', ''u'', ''gpr20_data'']) home_fs)
             (''/home/u'' @ ''/gpr20_data/'')"
    using b by simp
  have "check_survey_folder id ''/home/u'' home_fs = (Inr (), home_fs)"
    using a folder_checks [of home_fs "''/home/u''" id "[]"] by blast
  moreover have "check_survey_folder (dirs_update (insert [''home'', ''u'', ''gpr20_data'']))
      ''/home/u/gpr20_data/'' home_fs =
      (Inl FileExistsError, dirs_update (insert [''home'', ''u'', ''gpr20_data'']) home_fs)"
    using b folder_checks [of home_fs "''/home/u/gpr20_data/''"
        "dirs_update (insert [''home'', ''u'', ''gpr20_data''])" "[]"] by blast
  moreover have "check_main_folder id ''/home'' (dirs_update (insert [''home'', ''gpr20_data'']) home_fs) =
      (Inr (''/home'' @ ''/gpr20_data/''), dirs_update (insert [''home'', ''gpr20_data'']) home_fs)"
    using c folder_checks [of "dirs_update (insert [''home'', ''gpr20_data'']) home_fs" "[]" id "''/home''"]
    by blast
  moreover have "check_main_folder (dirs_update (insert [''home'', ''u'', ''gpr20_data''])) ''/home/u''
      home_fs = (Inl FileExistsError, dirs_update (insert [''home'', ''u'', ''gpr20_data'']) home_fs)"
    using d folder_checks [of home_fs "[]" "dirs_update (insert [''home'', ''u'', ''gpr20_data''])"
        "''/home/u''"] by blast
  ultimately show ?thesis by simp
qed

end
